theory Spec2Isabelle
  imports Main
begin

section \<open>Python string operations used by \<open>server.py\<close>\<close>

text \<open>
  A Python \<open>str\<close> is modelled as a \<open>string\<close> (a list of characters); \<open>len\<close> is
  \<open>length\<close>, \<open>+\<close> is \<open>@\<close>. The functions of this section are the standard-library
  operations the server calls, written out so that the server's functions can be
  evaluated on concrete inputs.
\<close>

text \<open>\<open>s.startswith(p)\<close>\<close>

definition startswith :: "string \<Rightarrow> string \<Rightarrow> bool" where
  "startswith s p \<longleftrightarrow> take (length p) s = p"

text \<open>\<open>sub in s\<close> for strings: \<open>sub\<close> occurs in \<open>s\<close> as a contiguous substring.\<close>

fun str_contains :: "string \<Rightarrow> string \<Rightarrow> bool" where
  "str_contains [] sub = (sub = [])"
| "str_contains (c # cs) sub = (startswith (c # cs) sub \<or> str_contains cs sub)"

text \<open>
  \<open>s.replace(old, new)\<close> for a non-empty \<open>old\<close>: one pass from the left; at each
  position where \<open>old\<close> starts, it is replaced and the scan continues after the
  occurrence, so the occurrences replaced do not overlap and the text produced is not
  scanned again. (For an empty \<open>old\<close>, which the server never passes, Python inserts
  \<open>new\<close> around every character; that case is left as the identity here.)
\<close>

function replace :: "string \<Rightarrow> string \<Rightarrow> string \<Rightarrow> string" where
  "replace [] old new = []"
| "replace (c # cs) old new =
     (if old \<noteq> [] \<and> startswith (c # cs) old
      then new @ replace (drop (length old) (c # cs)) old new
      else c # replace cs old new)"
  by pat_completeness auto
termination
  by (relation "measure (\<lambda>(s, old, new). length s)") auto

text \<open>\<open>s.split(sep)\<close> for a one-character separator: never an empty list.\<close>

fun split_on :: "char \<Rightarrow> string \<Rightarrow> string list" where
  "split_on sep [] = [[]]"
| "split_on sep (c # cs) =
     (if c = sep then [] # split_on sep cs
      else (case split_on sep cs of
              [] \<Rightarrow> [[c]]
            | w # ws \<Rightarrow> (c # w) # ws))"

text \<open>\<open>sep.join(comps)\<close>\<close>

fun join :: "string \<Rightarrow> string list \<Rightarrow> string" where
  "join sep [] = []"
| "join sep [w] = w"
| "join sep (w # v # ws) = w @ sep @ join sep (v # ws)"

subsection \<open>\<open>os.path.normpath\<close> (POSIX)\<close>

text \<open>
  The body of the loop of \<open>posixpath.normpath\<close>: empty and \<open>.\<close> components are
  skipped; a \<open>..\<close> component removes the component before it, unless there is none
  to remove in a relative path, or the one before is itself \<open>..\<close> (then it is kept);
  at the root it is dropped.
\<close>

definition normpath_step :: "nat \<Rightarrow> string list \<Rightarrow> string \<Rightarrow> string list" where
  "normpath_step initial_slashes new_comps component =
     (if component = [] \<or> component = ''.'' then new_comps
      else if component \<noteq> ''..'' \<or> (initial_slashes = 0 \<and> new_comps = [])
              \<or> (new_comps \<noteq> [] \<and> last new_comps = ''..'')
      then new_comps @ [component]
      else if new_comps \<noteq> [] then butlast new_comps
      else new_comps)"

text \<open>
  POSIX allows one or two initial slashes and treats three or more as one:
  \<open>normpath\<close> keeps exactly two leading slashes when the path starts with exactly two.
\<close>

definition initial_slashes_of :: "string \<Rightarrow> nat" where
  "initial_slashes_of path =
     (if startswith path ''/''
      then (if startswith path ''//'' \<and> \<not> startswith path ''///'' then 2 else 1)
      else 0)"

definition normpath :: "string \<Rightarrow> string" where
  "normpath path =
     (if path = [] then ''.''
      else
        let initial_slashes = initial_slashes_of path;
            comps = foldl (normpath_step initial_slashes) [] (split_on CHR ''/'' path);
            joined = join ''/'' comps;
            res = (if initial_slashes \<noteq> 0
                   then replicate initial_slashes CHR ''/'' @ joined
                   else joined)
        in if res = [] then ''.'' else res)"

section \<open>Security utilities\<close>

text \<open>
  \<open>sanitize_path\<close>: the empty path is returned as it is; otherwise every \<open>..\<close> is
  removed, then every \<open>//\<close> is replaced by \<open>/\<close> (one pass each), a leading \<open>/\<close> is
  added when there is none, and the result is normalised with \<open>os.path.normpath\<close>.
\<close>

definition sanitize_path :: "string \<Rightarrow> string" where
  "sanitize_path path =
     (if path = [] then []
      else
        let path1 = replace (replace path ''..'' []) ''//'' ''/'';
            path2 = (if \<not> startswith path1 ''/'' then ''/'' @ path1 else path1)
        in normpath path2)"

section \<open>Configuration\<close>

text \<open>
  The fields of \<open>Config\<close> that the functions below read. The integer settings are
  Python integers (the defaults can be overridden from the process environment with
  any integer). The transport switches (HTTP, HTTPS, CORS, log level) are left out;
  \<open>enable_sandbox\<close> is only reported by the metrics endpoint and is read by none of
  the functions modelled here.
\<close>

record Config =
  max_timeout :: int
  default_timeout :: int
  max_output_size :: int
  allowed_tools :: "string list"
  working_directory :: string

definition default_allowed_tools :: "string list" where
  "default_allowed_tools =
     [''nmap'', ''sqlmap'', ''hydra'', ''john'', ''nikto'',
      ''aircrack-ng'', ''metasploit-framework'', ''gobuster'',
      ''dirb'', ''wfuzz'', ''cewl'', ''hashcat'', ''crunch'',
      ''medusa'', ''ncrack'', ''enum4linux'', ''smbclient'',
      ''rpcclient'', ''ldapsearch'', ''dig'', ''nslookup'',
      ''whois'', ''traceroute'', ''ping'', ''netstat'', ''ss'']"

definition default_config :: Config where
  "default_config =
     \<lparr>max_timeout = 300, default_timeout = 60, max_output_size = 1048576,
      allowed_tools = default_allowed_tools, working_directory = ''/tmp/kali-mcp''\<rparr>"

section \<open>Exceptions\<close>

text \<open>
  What \<open>subprocess.run\<close> may raise besides \<open>TimeoutExpired\<close>: the two classes that
  \<open>get_tool_info\<close> catches by name, and others, which it does not catch: a permission
  error, a decoding error of the captured text (a \<open>ValueError\<close> in Python's class
  hierarchy), and any other exception that is no \<open>ValueError\<close>, such as an exec format
  error.
\<close>

datatype proc_error =
  FileNotFoundError | CalledProcessError | PermissionError | UnicodeDecodeError | OtherError

text \<open>The \<open>ValueError\<close>s of the server, by the message they carry.\<close>

datatype value_error =
    InvalidToolName                      \<comment> \<open>Tool name contains invalid characters\<close>
  | DangerousArguments                   \<comment> \<open>Arguments contain potentially dangerous characters\<close>
  | TimeoutOutOfRange int                \<comment> \<open>the request field's bounds \<open>ge=1\<close>, \<open>le=max_timeout\<close>\<close>
  | TimeoutExceedsMaximum int int        \<comment> \<open>Timeout t exceeds maximum allowed m\<close>
  | InvalidArguments                     \<comment> \<open>Invalid arguments: the tokenizer's message\<close>

datatype exn =
    SecurityError string                 \<comment> \<open>Tool is not allowed or not available\<close>
  | ValueError value_error
  | TimeoutError string int              \<comment> \<open>Tool timed out after t seconds\<close>
  | Propagated proc_error                \<comment> \<open>an exception of the launch, re-raised as it is\<close>
  | OSError                              \<comment> \<open>an exception of \<open>os.makedirs\<close>, caught nowhere\<close>

section \<open>Request validation\<close>

text \<open>The character class \<open>[a-zA-Z0-9_-]\<close>.\<close>

definition tool_name_char :: "char \<Rightarrow> bool" where
  "tool_name_char c \<longleftrightarrow>
     (let n = (of_char c :: nat)
      in (97 \<le> n \<and> n \<le> 122) \<or> (65 \<le> n \<and> n \<le> 90) \<or> (48 \<le> n \<and> n \<le> 57)
         \<or> c = CHR ''_'' \<or> c = CHR ''-'')"

text \<open>
  Where \<open>$\<close> matches (no \<open>MULTILINE\<close> flag): at the end of the string, and just before
  a newline that is the last character of the string. The argument is the rest of the
  string at the position tried.
\<close>

definition dollar_matches :: "string \<Rightarrow> bool" where
  "dollar_matches rest \<longleftrightarrow> rest = [] \<or> rest = [CHR 0x0A]"

text \<open>
  \<open>re.match(r'^[a-zA-Z0-9_-]+$', v)\<close> finds a match: one character of the class, and
  then either \<open>$\<close> matches here, or the repetition goes on.
\<close>

fun re_match_tool_name :: "string \<Rightarrow> bool" where
  "re_match_tool_name [] = False"
| "re_match_tool_name (c # cs) =
     (tool_name_char c \<and> (dollar_matches cs \<or> re_match_tool_name cs))"

definition validate_tool :: "string \<Rightarrow> value_error + string" where
  "validate_tool v = (if \<not> re_match_tool_name v then Inl InvalidToolName else Inr v)"

definition dangerous_chars :: "char list" where
  "dangerous_chars =
     [CHR '';'', CHR ''&'', CHR ''|'', CHR 0x60, CHR ''$'', CHR ''('', CHR '')'',
      CHR ''<'', CHR ''>'']"

definition validate_args :: "string option \<Rightarrow> value_error + string option" where
  "validate_args v =
     (case v of
        None \<Rightarrow> Inr None
      | Some a \<Rightarrow>
          if list_ex (\<lambda>ch. ch \<in> set a) dangerous_chars
          then Inl DangerousArguments else Inr (Some a))"

text \<open>The bounds of the \<open>timeout\<close> field: \<open>ge=1\<close>, \<open>le=config.max_timeout\<close>.\<close>

definition validate_timeout_field :: "Config \<Rightarrow> int option \<Rightarrow> value_error + int option" where
  "validate_timeout_field cfg v =
     (case v of
        None \<Rightarrow> Inr None
      | Some t \<Rightarrow>
          if t < 1 \<or> max_timeout cfg < t then Inl (TimeoutOutOfRange t) else Inr (Some t))"

record ToolExecutionRequest =
  tool :: string
  args :: "string option"
  timeout :: "int option"
  working_dir :: "string option"

definition errors_of :: "(value_error + 'a) \<Rightarrow> value_error list" where
  "errors_of r = (case r of Inl e \<Rightarrow> [e] | Inr _ \<Rightarrow> [])"

text \<open>
  Constructing a \<open>ToolExecutionRequest\<close>: every field is validated, the errors of all
  fields are collected, and the object exists only when there is none.
\<close>

definition ToolExecutionRequest_init ::
  "Config \<Rightarrow> string \<Rightarrow> string option \<Rightarrow> int option \<Rightarrow> string option
     \<Rightarrow> value_error list + ToolExecutionRequest" where
  "ToolExecutionRequest_init cfg tool_v args_v timeout_v working_dir_v =
     (let errs = errors_of (validate_tool tool_v) @ errors_of (validate_args args_v)
                 @ errors_of (validate_timeout_field cfg timeout_v)
      in if errs \<noteq> [] then Inl errs
         else Inr \<lparr>tool = tool_v, args = args_v, timeout = timeout_v,
                   working_dir = working_dir_v\<rparr>)"

section \<open>The host\<close>

text \<open>
  One call of \<open>subprocess.run\<close>: the argument vector, the working directory and the
  environment (\<open>None\<close> when the call passes none and the child inherits the server's),
  the deadline, and whether the command goes through a shell. Output capture and text
  mode are the same in every call of the server.
\<close>

record launch =
  cmd :: "string list"
  cwd :: "string option"
  env :: "(string \<rightharpoonup> string) option"
  proc_timeout :: int
  shell :: bool

text \<open>How a call of \<open>subprocess.run\<close> ends.\<close>

datatype proc_outcome =
    Completed (returncode: int) (stdout: string) (stderr: string)
  | TimeoutExpired
  | Raised proc_error

text \<open>
  The file system is the set of the paths that exist.
\<close>

type_synonym filesystem = "string set"

text \<open>
  What the server asks of the machine it runs on, as parameters: \<open>shutil.which\<close>,
  \<open>os.access(path, os.X_OK)\<close>, \<open>os.environ\<close>, \<open>shlex.split\<close> (\<open>None\<close> when it raises
  \<open>ValueError\<close>, as on an unbalanced quote), the outcome of a launch, and whether
  \<open>os.makedirs(p, exist_ok=True)\<close> raises in a given file system (no permission, a
  file in the way).
\<close>

record host =
  which :: "string \<Rightarrow> string option"
  access_x_ok :: "string \<Rightarrow> bool"
  environ :: "string \<rightharpoonup> string"
  shlex_split :: "string \<Rightarrow> string list option"
  subprocess_run :: "launch \<Rightarrow> proc_outcome"
  makedirs_raises :: "filesystem \<Rightarrow> string \<Rightarrow> bool"

text \<open>
  \<open>os.path.exists(p)\<close> is \<open>p \<in> fs\<close>. \<open>os.makedirs(p, exist_ok=True)\<close> either raises
  an \<open>OSError\<close> or leaves a file system in which \<open>p\<close> exists (the parent directories
  it creates on the way are not tracked).
\<close>

definition path_exists :: "filesystem \<Rightarrow> string \<Rightarrow> bool" where
  "path_exists fs p \<longleftrightarrow> p \<in> fs"

definition makedirs :: "host \<Rightarrow> filesystem \<Rightarrow> string \<Rightarrow> exn + filesystem" where
  "makedirs h fs p = (if makedirs_raises h fs p then Inl OSError else Inr (insert p fs))"

text \<open>Python's truth value of an optional string: \<open>None\<close> and \<open>""\<close> are false.\<close>

definition truthy :: "string option \<Rightarrow> bool" where
  "truthy v \<longleftrightarrow> (case v of None \<Rightarrow> False | Some s \<Rightarrow> s \<noteq> [])"

section \<open>Access control and the sandbox environment\<close>

definition validate_tool_access :: "host \<Rightarrow> Config \<Rightarrow> string \<Rightarrow> bool" where
  "validate_tool_access h cfg tool_name =
     (if tool_name \<notin> set (allowed_tools cfg) then False
      else case which h tool_name of
             None \<Rightarrow> False
           | Some tool_path \<Rightarrow>
               if tool_path = [] then False
               else if \<not> access_x_ok h tool_path then False
               else True)"

definition restricted_vars :: "string list" where
  "restricted_vars = [''PATH'', ''HOME'', ''USER'', ''SHELL'', ''PWD'', ''LANG'', ''LC_ALL'']"

text \<open>The loop that copies the retained variables: one step, for one variable name.\<close>

definition copy_var :: "(string \<rightharpoonup> string) \<Rightarrow> (string \<rightharpoonup> string) \<Rightarrow> string
    \<Rightarrow> (string \<rightharpoonup> string)" where
  "copy_var inherited sandbox_env var =
     (case inherited var of
        None \<Rightarrow> sandbox_env
      | Some v \<Rightarrow> sandbox_env(var \<mapsto> v))"

definition create_sandbox_environment :: "host \<Rightarrow> string \<Rightarrow> (string \<rightharpoonup> string)" where
  "create_sandbox_environment h wd =
     (let sandbox_env = foldl (copy_var (environ h)) Map.empty restricted_vars
      in sandbox_env(''PWD'' \<mapsto> wd, ''LD_PRELOAD'' \<mapsto> [], ''LD_LIBRARY_PATH'' \<mapsto> []))"

section \<open>Running a tool\<close>

text \<open>
  The timeout of a run: the configured default when the caller gives none, the
  caller's value otherwise, refused when it is above the configured maximum.
\<close>

definition effective_timeout :: "Config \<Rightarrow> int option \<Rightarrow> exn + int" where
  "effective_timeout cfg t_opt =
     (case t_opt of
        None \<Rightarrow> Inr (default_timeout cfg)
      | Some t \<Rightarrow>
          if t > max_timeout cfg
          then Inl (ValueError (TimeoutExceedsMaximum t (max_timeout cfg)))
          else Inr t)"

text \<open>
  The working directory of a run and the file system it leaves: the caller's
  directory, sanitized, created when it does not exist; the configured directory when
  the caller gives none (or an empty one), created in any case. An exception of
  \<open>os.makedirs\<close> leaves \<open>run_tool\<close>.
\<close>

definition prepare_working_dir ::
  "host \<Rightarrow> Config \<Rightarrow> filesystem \<Rightarrow> string option \<Rightarrow> exn + (string \<times> filesystem)" where
  "prepare_working_dir h cfg fs wd_opt =
     (if truthy wd_opt
      then (let wd = sanitize_path (case wd_opt of None \<Rightarrow> [] | Some w \<Rightarrow> w)
            in if \<not> path_exists fs wd
               then (case makedirs h fs wd of
                       Inl e \<Rightarrow> Inl e
                     | Inr fs' \<Rightarrow> Inr (wd, fs'))
               else Inr (wd, fs))
      else (case makedirs h fs (working_directory cfg) of
              Inl e \<Rightarrow> Inl e
            | Inr fs' \<Rightarrow> Inr (working_directory cfg, fs')))"

text \<open>The command: the tool's name, then the tokens of the arguments, if any.\<close>

definition build_cmd :: "host \<Rightarrow> string \<Rightarrow> string option \<Rightarrow> exn + string list" where
  "build_cmd h tool_name args_opt =
     (if truthy args_opt
      then (case shlex_split h (case args_opt of None \<Rightarrow> [] | Some a \<Rightarrow> a) of
              None \<Rightarrow> Inl (ValueError InvalidArguments)
            | Some tokens \<Rightarrow> Inr ([tool_name] @ tokens))
      else Inr [tool_name])"

text \<open>
  \<open>s[:n]\<close> for a Python integer \<open>n\<close>: the first \<open>n\<close> characters, and for a negative
  \<open>n\<close> all but the last \<open>-n\<close>.
\<close>

definition slice_to :: "string \<Rightarrow> int \<Rightarrow> string" where
  "slice_to s n = (if 0 \<le> n then take (nat n) s else take (length s - nat (- n)) s)"

definition truncation_marker :: string where
  "truncation_marker = [CHR 0x0A] @ ''... (output truncated)''"

text \<open>The output size check.\<close>

definition check_output_size :: "Config \<Rightarrow> string \<Rightarrow> string" where
  "check_output_size cfg out =
     (if int (length out) > max_output_size cfg
      then slice_to out (max_output_size cfg) @ truncation_marker
      else out)"

text \<open>
  The size in bytes of a text in UTF-8, for the characters of a \<open>string\<close> (code
  points below 256): one byte below 128, two from there on.
\<close>

definition utf8_length :: "string \<Rightarrow> nat" where
  "utf8_length s = sum_list (map (\<lambda>c. if (of_char c :: nat) < 128 then 1 else 2) s)"

text \<open>
  \<open>run_tool\<close>, the MCP tool and the function the HTTP route calls. It takes the file
  system and returns the file system it leaves, the launches it made, in order, and
  either the exception it raises or the output it returns. Logging and the measuring
  of the elapsed time have no part in those and are left out.
\<close>

definition run_tool ::
  "host \<Rightarrow> Config \<Rightarrow> filesystem \<Rightarrow> string \<Rightarrow> string option \<Rightarrow> int option \<Rightarrow> string option
     \<Rightarrow> filesystem \<times> launch list \<times> (exn + string)" where
  "run_tool h cfg fs tool_name args_opt timeout_opt wd_opt =
     (if \<not> validate_tool_access h cfg tool_name
      then (fs, [], Inl (SecurityError tool_name))
      else
        case effective_timeout cfg timeout_opt of
          Inl e \<Rightarrow> (fs, [], Inl e)
        | Inr t \<Rightarrow>
            (case prepare_working_dir h cfg fs wd_opt of
               Inl e \<Rightarrow> (fs, [], Inl e)
             | Inr (wd, fs') \<Rightarrow>
                 (case build_cmd h tool_name args_opt of
                    Inl e \<Rightarrow> (fs', [], Inl e)
                  | Inr command \<Rightarrow>
                      let l = \<lparr>cmd = command, cwd = Some wd,
                               env = Some (create_sandbox_environment h wd),
                               proc_timeout = t, shell = False\<rparr>
                      in (fs', [l],
                          case subprocess_run h l of
                            Completed rc out err \<Rightarrow> Inr (check_output_size cfg (out @ err))
                          | TimeoutExpired \<Rightarrow> Inl (TimeoutError tool_name t)
                          | Raised e \<Rightarrow> Inl (Propagated e)))))"

section \<open>The HTTP route \<open>/run\<close>\<close>

text \<open>The response; the elapsed time, a float, is left out.\<close>

record ToolExecutionResponse =
  success :: bool
  response_output :: string
  response_error :: "string option"
  response_tool :: string
  response_args :: "string option"
  return_code :: int

datatype http_result = Response ToolExecutionResponse | HTTPException int

text \<open>
  The status code for an exception of \<open>run_tool\<close>: the \<open>except\<close> clauses in their
  order. A \<open>TimeoutError\<close> is no \<open>ValueError\<close>; of the exceptions of the launch, only
  the decoding error is one.
\<close>

fun status_code_of :: "exn \<Rightarrow> int" where
  "status_code_of (SecurityError _) = 403"
| "status_code_of (ValueError _) = 400"
| "status_code_of (TimeoutError _ _) = 408"
| "status_code_of (Propagated e) = (if e = UnicodeDecodeError then 400 else 500)"
| "status_code_of OSError = 500"

definition run_tool_http ::
  "host \<Rightarrow> Config \<Rightarrow> filesystem \<Rightarrow> ToolExecutionRequest
     \<Rightarrow> filesystem \<times> launch list \<times> http_result" where
  "run_tool_http h cfg fs request =
     (case run_tool h cfg fs (tool request) (args request) (timeout request)
             (working_dir request) of
        (fs', ls, Inr out) \<Rightarrow>
          (fs', ls,
           Response \<lparr>success = True, response_output = out, response_error = None,
                     response_tool = tool request, response_args = args request,
                     return_code = 0\<rparr>)
      | (fs', ls, Inl e) \<Rightarrow> (fs', ls, HTTPException (status_code_of e)))"

text \<open>
  A \<open>POST /run\<close> with the fields of its body: the request object is constructed first,
  and the route answers 422 without calling \<open>run_tool_http\<close> when that fails.
\<close>

definition post_run ::
  "host \<Rightarrow> Config \<Rightarrow> filesystem \<Rightarrow> string \<Rightarrow> string option \<Rightarrow> int option \<Rightarrow> string option
     \<Rightarrow> filesystem \<times> launch list \<times> http_result" where
  "post_run h cfg fs tool_v args_v timeout_v working_dir_v =
     (case ToolExecutionRequest_init cfg tool_v args_v timeout_v working_dir_v of
        Inl errs \<Rightarrow> (fs, [], HTTPException 422)
      | Inr request \<Rightarrow> run_tool_http h cfg fs request)"

section \<open>Tool management\<close>

record ToolInfo =
  name :: string
  path :: string
  version :: "string option"
  description :: "string option"
  available :: bool

text \<open>\<open>c.isspace()\<close>, for the characters of a \<open>string\<close>.\<close>

definition is_space :: "char \<Rightarrow> bool" where
  "is_space c \<longleftrightarrow> (of_char c :: nat) \<in> {9, 10, 11, 12, 13, 28, 29, 30, 31, 32, 133, 160}"

text \<open>\<open>s.strip()\<close>\<close>

definition strip :: "string \<Rightarrow> string" where
  "strip s = rev (dropWhile is_space (rev (dropWhile is_space s)))"

text \<open>\<open>s.split('\n')[0]\<close>\<close>

definition first_line :: "string \<Rightarrow> string" where
  "first_line s = (case split_on (CHR 0x0A) s of [] \<Rightarrow> [] | l # _ \<Rightarrow> l)"

text \<open>The version probe: the tool with \<open>--version\<close>, five seconds, the server's own
  working directory and environment.\<close>

definition version_probe :: "string \<Rightarrow> launch" where
  "version_probe tool_name =
     \<lparr>cmd = [tool_name, ''--version''], cwd = None, env = None, proc_timeout = 5,
      shell = False\<rparr>"

text \<open>
  The \<open>try\<close> block around the probe: a timeout, a \<open>CalledProcessError\<close> and a
  \<open>FileNotFoundError\<close> are caught and leave the version absent; any other exception
  leaves the function.
\<close>

definition probe_version :: "host \<Rightarrow> string \<Rightarrow> exn + string option" where
  "probe_version h tool_name =
     (case subprocess_run h (version_probe tool_name) of
        Completed rc out err \<Rightarrow>
          Inr (if rc = 0 then Some (first_line (strip out)) else None)
      | TimeoutExpired \<Rightarrow> Inr None
      | Raised e \<Rightarrow>
          if e = CalledProcessError \<or> e = FileNotFoundError then Inr None
          else Inl (Propagated e))"

definition get_tool_info :: "host \<Rightarrow> Config \<Rightarrow> string \<Rightarrow> exn + ToolInfo option" where
  "get_tool_info h cfg tool_name =
     (if \<not> validate_tool_access h cfg tool_name then Inr None
      else if \<not> truthy (which h tool_name) then Inr None
      else
        case probe_version h tool_name of
          Inl e \<Rightarrow> Inl e
        | Inr v \<Rightarrow>
            Inr (Some \<lparr>name = tool_name,
                       path = (case which h tool_name of None \<Rightarrow> [] | Some p \<Rightarrow> p),
                       version = v, description = None, available = True\<rparr>))"

definition unavailable :: "string \<Rightarrow> ToolInfo" where
  "unavailable tool_name =
     \<lparr>name = tool_name, path = [], version = None, description = None,
      available = False\<rparr>"

text \<open>
  The loop of \<open>list_tools\<close> over the names still to visit: the entry of the first name
  comes first, and an exception of \<open>get_tool_info\<close> ends the loop and the function.
\<close>

fun list_tools_from :: "host \<Rightarrow> Config \<Rightarrow> string list \<Rightarrow> exn + ToolInfo list" where
  "list_tools_from h cfg [] = Inr []"
| "list_tools_from h cfg (tool_name # rest) =
     (case get_tool_info h cfg tool_name of
        Inl e \<Rightarrow> Inl e
      | Inr tool_info \<Rightarrow>
          (case list_tools_from h cfg rest of
             Inl e \<Rightarrow> Inl e
           | Inr tools \<Rightarrow>
               Inr ((case tool_info of
                       Some info \<Rightarrow> info
                     | None \<Rightarrow> unavailable tool_name) # tools)))"

definition list_tools :: "host \<Rightarrow> Config \<Rightarrow> exn + ToolInfo list" where
  "list_tools h cfg = list_tools_from h cfg (allowed_tools cfg)"

record ToolListResponse =
  tools :: "ToolInfo list"
  total :: int

definition list_tools_http :: "host \<Rightarrow> Config \<Rightarrow> exn + ToolListResponse" where
  "list_tools_http h cfg =
     (case list_tools h cfg of
        Inl e \<Rightarrow> Inl e
      | Inr ts \<Rightarrow> Inr \<lparr>tools = ts, total = int (length ts)\<rparr>)"

section \<open>An example host\<close>

text \<open>
  A tokenizer for the examples: the words between blanks. On a string without quotes,
  backslashes and whitespace other than blanks, \<open>shlex.split\<close> returns these words.
\<close>

definition split_blanks :: "string \<Rightarrow> string list" where
  "split_blanks s = filter (\<lambda>w. w \<noteq> []) (split_on CHR '' '' s)"

text \<open>
  A machine with \<open>nmap\<close> installed and no other tool, some variables in the server's
  environment, every launch ending in the outcome given, and \<open>/etc/passwd\<close> a file, so
  that no directory can be made under it.
\<close>

definition example_host :: "proc_outcome \<Rightarrow> host" where
  "example_host outcome =
     \<lparr>which = (\<lambda>t. if t = ''nmap'' then Some ''/usr/bin/nmap'' else None),
      access_x_ok = (\<lambda>p. p = ''/usr/bin/nmap''),
      environ = [''PATH'' \<mapsto> ''/usr/bin'', ''HOME'' \<mapsto> ''/root'',
                 ''PYTHONPATH'' \<mapsto> ''/opt/lib'', ''LD_PRELOAD'' \<mapsto> ''/tmp/evil.so''],
      shlex_split = (\<lambda>s. Some (split_blanks s)),
      subprocess_run = (\<lambda>l. outcome),
      makedirs_raises = (\<lambda>fs p. startswith p ''/etc/passwd/'')\<rparr>"

section \<open>Predicates used in the proofs\<close>

text \<open>
  The version probe of a tool does not end the listing: the tool fails the access
  check (and is not probed), or its probe raises nothing but the two exceptions that
  \<open>get_tool_info\<close> catches.
\<close>

definition probe_ok :: "host \<Rightarrow> Config \<Rightarrow> string \<Rightarrow> bool" where
  "probe_ok h cfg t \<longleftrightarrow>
     (validate_tool_access h cfg t \<longrightarrow>
        (\<forall>e. subprocess_run h (version_probe t) = Raised e \<longrightarrow>
               e = CalledProcessError \<or> e = FileNotFoundError))"

text \<open>The entry of a listing that belongs to the allow-list name \<open>t\<close>.\<close>

definition entry_for :: "host \<Rightarrow> Config \<Rightarrow> string \<Rightarrow> ToolInfo \<Rightarrow> bool" where
  "entry_for h cfg t info \<longleftrightarrow>
     name info = t \<and>
     (if validate_tool_access h cfg t
      then available info \<and> which h t = Some (path info)
      else \<not> available info \<and> path info = [])"

section \<open>The sandbox environment\<close>



section \<open>The stages of \<open>run_tool\<close>\<close>

lemma run_tool_denied:
  "\<not> validate_tool_access h cfg tool_name \<Longrightarrow>
     run_tool h cfg fs tool_name args_opt timeout_opt wd_opt
       = (fs, [], Inl (SecurityError tool_name))"
  by (simp add: run_tool_def)

lemma run_tool_timeout_refused:
  "validate_tool_access h cfg tool_name \<Longrightarrow> effective_timeout cfg timeout_opt = Inl e \<Longrightarrow>
     run_tool h cfg fs tool_name args_opt timeout_opt wd_opt = (fs, [], Inl e)"
  by (simp add: run_tool_def)


lemma run_tool_cmd_refused:
  "validate_tool_access h cfg tool_name \<Longrightarrow> effective_timeout cfg timeout_opt = Inr t \<Longrightarrow>
   prepare_working_dir h cfg fs wd_opt = Inr (wd, fs') \<Longrightarrow>
   build_cmd h tool_name args_opt = Inl e \<Longrightarrow>
     run_tool h cfg fs tool_name args_opt timeout_opt wd_opt = (fs', [], Inl e)"
  by (simp add: run_tool_def)

lemma run_tool_launched:
  "validate_tool_access h cfg tool_name \<Longrightarrow> effective_timeout cfg timeout_opt = Inr t \<Longrightarrow>
   prepare_working_dir h cfg fs wd_opt = Inr (wd, fs') \<Longrightarrow>
   build_cmd h tool_name args_opt = Inr command \<Longrightarrow>
     fst (snd (run_tool h cfg fs tool_name args_opt timeout_opt wd_opt))
       = [\<lparr>cmd = command, cwd = Some wd, env = Some (create_sandbox_environment h wd),
           proc_timeout = t, shell = False\<rparr>]"
  by (simp add: run_tool_def Let_def)

text \<open>Whatever the request: at most one launch, and what every launch is like.\<close>

lemma run_tool_launches:
  assumes "l \<in> set (fst (snd (run_tool h cfg fs tool_name args_opt timeout_opt wd_opt)))"
  shows "fst (snd (run_tool h cfg fs tool_name args_opt timeout_opt wd_opt)) = [l]
         \<and> \<not> shell l
         \<and> (\<exists>tokens. cmd l = tool_name # tokens)
         \<and> effective_timeout cfg timeout_opt = Inr (proc_timeout l)
         \<and> (\<exists>wd fs'. prepare_working_dir h cfg fs wd_opt = Inr (wd, fs') \<and> cwd l = Some wd
                \<and> env l = Some (create_sandbox_environment h wd))"
  using assms
  by (auto simp: run_tool_def build_cmd_def Let_def
      split: if_splits sum.splits prod.splits option.splits)



text \<open>The example host: \<open>nmap\<close> passes the access check, \<open>rm\<close> does not.\<close>

lemma example_access: "validate_tool_access (example_host oc) default_config ''nmap''"
  by (simp add: validate_tool_access_def example_host_def default_config_def
      default_allowed_tools_def)

lemma example_no_access: "\<not> validate_tool_access (example_host oc) default_config ''rm''"
  by (simp add: validate_tool_access_def example_host_def default_config_def
      default_allowed_tools_def)

lemmas example_simps =
  run_tool_def validate_tool_access_def example_host_def default_config_def
  default_allowed_tools_def effective_timeout_def prepare_working_dir_def truthy_def
  path_exists_def makedirs_def build_cmd_def split_blanks_def startswith_def

section \<open>Forbidden characters in the arguments\<close>

text \<open>
  On the HTTP route the request object is constructed first: an argument string with
  one of the forbidden characters is refused there, and nothing is launched.
\<close>

lemma post_run_dangerous_args:
  assumes "ch \<in> set dangerous_chars" and "ch \<in> set a"
  shows "post_run h cfg fs tool_v (Some a) timeout_v working_dir_v
           = (fs, [], HTTPException 422)"
proof -
  from assms have "validate_args (Some a) = Inl DangerousArguments"
    by (auto simp: validate_args_def list_ex_iff)
  then show ?thesis
    by (simp add: post_run_def ToolExecutionRequest_init_def errors_of_def Let_def)
qed

text \<open>
  C1. \<open>run_tool\<close> itself, the MCP tool, checks the tool but not the argument string:
  called with \<open>nmap\<close> and the arguments \<open>test; rm -rf /\<close>, which \<open>validate_args\<close>
  refuses, it launches \<open>nmap\<close> with the tokens of that string and returns the output.
\<close>

theorem run_tool_dangerous_args_launched:
  "validate_args (Some ''test; rm -rf /'') = Inl DangerousArguments
   \<and> map cmd (fst (snd (run_tool (example_host (Completed 0 ''out'' [])) default_config {}
         ''nmap'' (Some ''test; rm -rf /'') None None)))
       = [[''nmap'', ''test;'', ''rm'', ''-rf'', ''/'']]
   \<and> snd (snd (run_tool (example_host (Completed 0 ''out'' [])) default_config {}
         ''nmap'' (Some ''test; rm -rf /'') None None)) = Inr ''out''"
  by (simp add: example_simps validate_args_def dangerous_chars_def check_output_size_def)

section \<open>The exit code in the response\<close>

lemma run_tool_http_launches:
  "fst (snd (run_tool_http h cfg fs request))
     = fst (snd (run_tool h cfg fs (tool request) (args request) (timeout request)
                  (working_dir request)))"
  by (simp add: run_tool_http_def split: prod.splits sum.splits)

lemma run_tool_http_response:
  "snd (snd (run_tool_http h cfg fs request)) = Response r \<Longrightarrow>
     success r \<and> return_code r = 0"
  by (auto simp: run_tool_http_def split: prod.splits sum.splits)

text \<open>
  C2. A run of \<open>nmap --version\<close> in which the process exits with code 1: the response
  reports success, and its \<open>return_code\<close> is 0, not the exit code of the process.
\<close>

theorem run_tool_http_return_code_zero:
  "snd (snd (run_tool_http (example_host (Completed 1 ''out'' ''err'')) default_config {}
       \<lparr>tool = ''nmap'', args = Some ''--version'', timeout = None, working_dir = None\<rparr>))
     = Response \<lparr>success = True, response_output = ''outerr'', response_error = None,
                 response_tool = ''nmap'', response_args = Some ''--version'',
                 return_code = 0\<rparr>"
  by (simp add: run_tool_http_def example_simps check_output_size_def)

section \<open>Path sanitization\<close>

text \<open>
  The traversal token does not survive: whatever the path, the sanitized path has no
  two dots in a row. One pass of \<open>replace\<close> leaves no \<open>..\<close> behind, and neither the
  replacement of \<open>//\<close>, the leading slash nor \<open>normpath\<close> brings two dots together.
\<close>

lemma startswith_two:
  "startswith s [a, b] \<longleftrightarrow> (\<exists>r. s = a # b # r)"
proof (cases s)
  case Nil
  then show ?thesis by (simp add: startswith_def)
next
  case (Cons c cs)
  then show ?thesis by (cases cs) (auto simp: startswith_def)
qed

lemma contains_dotdot_Nil: "\<not> str_contains [] ''..''"
  by simp

lemma contains_dotdot_Cons:
  "str_contains (c # cs) ''..'' \<longleftrightarrow>
     (c = CHR ''.'' \<and> (\<exists>r. cs = CHR ''.'' # r)) \<or> str_contains cs ''..''"
  by (auto simp: startswith_two)

lemma contains_dotdot_slash: "str_contains (CHR ''/'' # s) ''..'' \<longleftrightarrow> str_contains s ''..''"
  by (simp add: contains_dotdot_Cons startswith_two)

lemma replace_dotdot_head:
  "replace s ''..'' [] = CHR ''.'' # r \<Longrightarrow> \<exists>r'. s = CHR ''.'' # r'"
  by (cases s) (auto simp: startswith_two split: if_splits)

lemma replace_dotdot_clean: "\<not> str_contains (replace s ''..'' []) ''..''"
proof (induction s "''..''" "[] :: string" rule: replace.induct)
  case 1
  show ?case by simp
next
  case (2 c cs)
  show ?case
  proof (cases "startswith (c # cs) ''..''")
    case True
    with 2 show ?thesis by simp
  next
    case False
    with 2 have ih: "\<not> str_contains (replace cs ''..'' []) ''..''" by simp
    have "\<not> (c = CHR ''.'' \<and> (\<exists>r. replace cs ''..'' [] = CHR ''.'' # r))"
    proof
      assume a: "c = CHR ''.'' \<and> (\<exists>r. replace cs ''..'' [] = CHR ''.'' # r)"
      then obtain r' where "cs = CHR ''.'' # r'" using replace_dotdot_head by blast
      with a False show False by (simp add: startswith_two)
    qed
    moreover from False have "replace (c # cs) ''..'' [] = c # replace cs ''..'' []"
      by simp
    ultimately show ?thesis
      using ih by (simp only: contains_dotdot_Cons) blast
  qed
qed

lemma replace_slashes_head:
  "replace s ''//'' ''/'' = CHR ''.'' # r \<Longrightarrow> \<exists>r'. s = CHR ''.'' # r'"
  by (cases s) (auto simp: startswith_two split: if_splits)

lemma replace_slashes_clean:
  "\<not> str_contains s ''..'' \<Longrightarrow> \<not> str_contains (replace s ''//'' ''/'') ''..''"
proof (induction s "''//''" "''/''" rule: replace.induct)
  case 1
  show ?case by simp
next
  case (2 c cs)
  show ?case
  proof (cases "startswith (c # cs) ''//''")
    case True
    then obtain r where r: "c # cs = CHR ''/'' # CHR ''/'' # r"
      by (auto simp: startswith_two)
    with "2.prems" have "\<not> str_contains r ''..''"
      by (simp add: contains_dotdot_Cons startswith_two)
    with "2.hyps"(1) True r have "\<not> str_contains (replace r ''//'' ''/'') ''..''"
      by simp
    then have clean: "\<not> str_contains (CHR ''/'' # replace r ''//'' ''/'') ''..''"
      unfolding contains_dotdot_slash .
    from True r
    have eq: "replace (c # cs) ''//'' ''/'' = CHR ''/'' # replace r ''//'' ''/''"
      by simp
    from clean show ?thesis unfolding eq .
  next
    case False
    from "2.prems" have cs: "\<not> str_contains cs ''..''"
      and hd: "\<not> (c = CHR ''.'' \<and> (\<exists>r. cs = CHR ''.'' # r))"
      by (simp_all add: contains_dotdot_Cons startswith_two)
    from "2.hyps"(2) False cs have ih: "\<not> str_contains (replace cs ''//'' ''/'') ''..''"
      by simp
    have "\<not> (c = CHR ''.'' \<and> (\<exists>r. replace cs ''//'' ''/'' = CHR ''.'' # r))"
      using hd replace_slashes_head by blast
    moreover from False have "replace (c # cs) ''//'' ''/'' = c # replace cs ''//'' ''/''"
      by simp
    ultimately show ?thesis
      using ih by (simp only: contains_dotdot_Cons) blast
  qed
qed

lemma split_on_head:
  "split_on sep s = w # ws \<Longrightarrow> w = CHR ''.'' # r \<Longrightarrow> \<exists>r'. s = CHR ''.'' # r'"
  by (cases s) (auto split: if_splits list.splits)

lemma split_on_clean:
  "\<not> str_contains s ''..'' \<Longrightarrow> w \<in> set (split_on sep s) \<Longrightarrow> \<not> str_contains w ''..''"
proof (induction s arbitrary: w)
  case Nil
  then show ?case by simp
next
  case (Cons c cs)
  from Cons.prems(1) have cs: "\<not> str_contains cs ''..''"
    and hd: "\<not> (c = CHR ''.'' \<and> (\<exists>r. cs = CHR ''.'' # r))"
    by (simp_all add: contains_dotdot_Cons startswith_two)
  show ?case
  proof (cases "c = sep")
    case True
    with Cons.prems(2) have "w = [] \<or> w \<in> set (split_on sep cs)" by simp
    with Cons.IH [OF cs] show ?thesis by auto
  next
    case False
    obtain v vs where v: "split_on sep cs = v # vs"
      by (cases "split_on sep cs") (cases cs; simp split: if_splits list.splits)+
    with False Cons.prems(2) have "w = c # v \<or> w \<in> set vs" by simp
    then show ?thesis
    proof
      assume w: "w = c # v"
      from v have "v \<in> set (split_on sep cs)" by simp
      from Cons.IH [OF cs this] have "\<not> str_contains v ''..''" .
      moreover have "\<not> (c = CHR ''.'' \<and> (\<exists>r. v = CHR ''.'' # r))"
        using hd split_on_head [OF v] by blast
      ultimately show ?thesis using w by (simp add: contains_dotdot_Cons startswith_two)
    next
      assume "w \<in> set vs"
      with v have "w \<in> set (split_on sep cs)" by simp
      from Cons.IH [OF cs this] show ?thesis .
    qed
  qed
qed

lemma normpath_step_subset:
  "set (normpath_step n acc x) \<subseteq> set acc \<union> {x}"
  by (auto simp: normpath_step_def dest: in_set_butlastD)

lemma normpath_fold_subset:
  "set (foldl (normpath_step n) acc xs) \<subseteq> set acc \<union> set xs"
proof (induction xs arbitrary: acc)
  case Nil
  then show ?case by simp
next
  case (Cons x xs)
  from Cons.IH [of "normpath_step n acc x"] normpath_step_subset [of n acc x]
  show ?case by auto
qed

lemma contains_dotdot_append_slash:
  "str_contains (xs @ CHR ''/'' # ys) ''..'' \<longleftrightarrow> str_contains xs ''..'' \<or> str_contains ys ''..''"
proof (induction xs)
  case Nil
  then show ?case by (simp add: contains_dotdot_Cons startswith_two)
next
  case (Cons c xs)
  have "(\<exists>r. xs @ CHR ''/'' # ys = CHR ''.'' # r) \<longleftrightarrow> (\<exists>r. xs = CHR ''.'' # r)"
    by (cases xs) auto
  with Cons.IH show ?case
    by (simp add: contains_dotdot_Cons startswith_two)
qed

lemma join_clean:
  "\<forall>w \<in> set ws. \<not> str_contains w ''..'' \<Longrightarrow> \<not> str_contains (join ''/'' ws) ''..''"
  by (induction "''/''" ws rule: join.induct) (simp_all add: contains_dotdot_append_slash)

lemma slashes_clean:
  "str_contains (replicate n CHR ''/'' @ s) ''..'' \<longleftrightarrow> str_contains s ''..''"
  by (induction n) (simp_all add: contains_dotdot_Cons startswith_two)

lemma normpath_clean:
  assumes "\<not> str_contains p ''..''"
  shows "\<not> str_contains (normpath p) ''..''"
proof -
  let ?n = "initial_slashes_of p"
  let ?comps = "foldl (normpath_step ?n) [] (split_on CHR ''/'' p)"
  let ?res = "if ?n \<noteq> 0 then replicate ?n CHR ''/'' @ join ''/'' ?comps else join ''/'' ?comps"
  have "\<forall>w \<in> set ?comps. \<not> str_contains w ''..''"
    using normpath_fold_subset [of ?n "[]" "split_on CHR ''/'' p"] split_on_clean [OF assms]
    by auto
  then have "\<not> str_contains (join ''/'' ?comps) ''..''"
    by (rule join_clean)
  then have res: "\<not> str_contains ?res ''..''"
    by (auto simp: slashes_clean)
  have dot: "\<not> str_contains ''.'' ''..''"
    by (simp add: startswith_def)
  have "normpath p = ''.'' \<or> normpath p = ?res"
    by (simp add: normpath_def Let_def)
  with res dot show ?thesis by auto
qed

lemma sanitize_path_no_dotdot: "\<not> str_contains (sanitize_path p) ''..''"
proof (cases "p = []")
  case True
  then show ?thesis by (simp add: sanitize_path_def)
next
  case False
  let ?p1 = "replace (replace p ''..'' []) ''//'' ''/''"
  have p1: "\<not> str_contains ?p1 ''..''"
    using replace_dotdot_clean by (rule replace_slashes_clean)
  then have "\<not> str_contains (CHR ''/'' # ?p1) ''..''"
    unfolding contains_dotdot_slash .
  with p1 False show ?thesis
    by (simp add: sanitize_path_def Let_def normpath_clean)
qed

text \<open>
  C3. The path \<open>../../../etc/passwd\<close> is sanitized to \<open>//etc/passwd\<close>, which has a
  doubled separator: removing the \<open>..\<close> leaves three slashes, the one pass over \<open>//\<close>
  leaves two, and \<open>normpath\<close> keeps exactly two leading slashes.
\<close>

theorem sanitize_path_keeps_double_slash:
  "sanitize_path ''../../../etc/passwd'' = ''//etc/passwd''
   \<and> str_contains (sanitize_path ''../../../etc/passwd'') ''//''"
  by code_simp

section \<open>One launch, without a shell\<close>




section \<open>The working directory\<close>

text \<open>
  The working directory of every launch exists in the file system that \<open>run_tool\<close>
  leaves (it changes the file system only before the launch).
\<close>

lemma run_tool_cwd_exists:
  assumes "l \<in> set (fst (snd (run_tool h cfg fs tool_name args_opt timeout_opt wd_opt)))"
  shows "\<exists>wd. cwd l = Some wd
           \<and> path_exists (fst (run_tool h cfg fs tool_name args_opt timeout_opt wd_opt)) wd"
  using assms
  by (auto simp: run_tool_def prepare_working_dir_def path_exists_def makedirs_def Let_def
      split: if_splits sum.splits prod.splits)

text \<open>
  C5. With the configured working directory \<open>/tmp/kali-mcp\<close>, a caller who supplies
  the working directory \<open>/etc\<close> has the process launched in \<open>/etc\<close>, which is not
  under the configured directory.
\<close>

theorem run_tool_working_dir_outside_root:
  "map cwd (fst (snd (run_tool (example_host (Completed 0 ''out'' [])) default_config {}
         ''nmap'' (Some ''-V'') None (Some ''/etc'')))) = [Some ''/etc'']
   \<and> working_directory default_config = ''/tmp/kali-mcp''
   \<and> \<not> startswith ''/etc'' (working_directory default_config)"
  by (simp add: example_simps sanitize_path_def normpath_def initial_slashes_of_def
      normpath_step_def startswith_def Let_def)

section \<open>The output cap\<close>

text \<open>
  What the size check does: it counts characters. When the process of a run
  completes, the run returns the captured output (standard output, then standard
  error) as it is when it has at most \<open>max_output_size\<close> characters, and otherwise the
  slice \<open>output[:max_output_size]\<close> followed by a newline and
  \<open>... (output truncated)\<close>. For a cap that is not negative the slice is the first
  cap-many characters.
\<close>

lemma run_tool_output_slice:
  assumes launched: "fst (snd (run_tool h cfg fs tool_name args_opt timeout_opt wd_opt)) = [l]"
      and completed: "subprocess_run h l = Completed rc out err"
  shows "snd (snd (run_tool h cfg fs tool_name args_opt timeout_opt wd_opt)) =
           Inr (if int (length (out @ err)) > max_output_size cfg
                then slice_to (out @ err) (max_output_size cfg)
                     @ [CHR 0x0A] @ ''... (output truncated)''
                else out @ err)"
  using launched completed
  by (auto simp: run_tool_def check_output_size_def truncation_marker_def Let_def
      split: if_splits sum.splits prod.splits)

lemma run_tool_output_cap:
  assumes cap: "0 \<le> max_output_size cfg"
      and launched: "fst (snd (run_tool h cfg fs tool_name args_opt timeout_opt wd_opt)) = [l]"
      and completed: "subprocess_run h l = Completed rc out err"
  shows "snd (snd (run_tool h cfg fs tool_name args_opt timeout_opt wd_opt)) =
           Inr (if length (out @ err) > nat (max_output_size cfg)
                then take (nat (max_output_size cfg)) (out @ err)
                     @ [CHR 0x0A] @ ''... (output truncated)''
                else out @ err)"
proof -
  from cap have "slice_to (out @ err) (max_output_size cfg)
      = take (nat (max_output_size cfg)) (out @ err)"
    by (simp add: slice_to_def)
  moreover from cap have "int (length (out @ err)) > max_output_size cfg
      \<longleftrightarrow> length (out @ err) > nat (max_output_size cfg)"
    by auto
  ultimately show ?thesis
    using run_tool_output_slice [OF launched completed] by simp
qed

text \<open>A cap of five characters and a process that writes eight.\<close>

lemma run_tool_output_cap_example:
  "snd (snd (run_tool (example_host (Completed 0 ''abcdef'' ''gh''))
         (default_config\<lparr>max_output_size := 5\<rparr>) {} ''nmap'' None None None))
       = Inr (''abcde'' @ [CHR 0x0A] @ ''... (output truncated)'')"
  by (simp add: example_simps check_output_size_def slice_to_def truncation_marker_def)

text \<open>
  C6. With a cap of 4, a process writes three times the letter e with an acute accent
  (code point 233): six bytes in UTF-8, more than the cap. The run returns the three
  characters as they are, with no truncation marker: the check counts three
  characters, not six bytes.
\<close>

theorem run_tool_output_over_byte_cap:
  "utf8_length [CHR 0xE9, CHR 0xE9, CHR 0xE9] = 6
   \<and> max_output_size (default_config\<lparr>max_output_size := 4\<rparr>) = 4
   \<and> run_tool (example_host (Completed 0 [CHR 0xE9, CHR 0xE9, CHR 0xE9] []))
        (default_config\<lparr>max_output_size := 4\<rparr>) {} ''nmap'' None None None
      = ({''/tmp/kali-mcp''},
         [\<lparr>cmd = [''nmap''], cwd = Some ''/tmp/kali-mcp'',
           env = Some (create_sandbox_environment
                  (example_host (Completed 0 [CHR 0xE9, CHR 0xE9, CHR 0xE9] []))
                  ''/tmp/kali-mcp''),
           proc_timeout = 60, shell = False\<rparr>],
         Inr [CHR 0xE9, CHR 0xE9, CHR 0xE9])"
  by (simp add: example_simps check_output_size_def utf8_length_def)

section \<open>The timeout\<close>

text \<open>
  C7, as the code has it. In \<open>run_tool\<close> the access check comes first: a call whose
  tool fails it is refused with a \<open>SecurityError\<close>, whatever its timeout. A call whose
  tool passes it and whose timeout is above the maximum is refused with the
  \<open>ValueError\<close> of the timeout. On the HTTP route a timeout above the maximum is
  refused with status 422 when the request object is constructed, before \<open>run_tool\<close>
  is called. All three leave the file system as it was and launch nothing. Every
  launch of a call without a timeout has the configured default timeout as its
  deadline; there is such a launch when the tool passes the access check, the
  working directory is prepared and the command is built without error.
\<close>

theorem run_tool_timeout_check:
  "(validate_tool_access h cfg tool_name \<and> max_timeout cfg < t \<longrightarrow>
      run_tool h cfg fs tool_name args_opt (Some t) wd_opt
        = (fs, [], Inl (ValueError (TimeoutExceedsMaximum t (max_timeout cfg)))))
   \<and> (\<not> validate_tool_access h cfg tool_name \<longrightarrow>
      run_tool h cfg fs tool_name args_opt timeout_opt wd_opt
        = (fs, [], Inl (SecurityError tool_name)))
   \<and> (max_timeout cfg < t \<longrightarrow>
      post_run h cfg fs tool_name args_opt (Some t) wd_opt = (fs, [], HTTPException 422))
   \<and> (\<forall>l \<in> set (fst (snd (run_tool h cfg fs tool_name args_opt None wd_opt))).
         proc_timeout l = default_timeout cfg)
   \<and> (validate_tool_access h cfg tool_name
       \<and> prepare_working_dir h cfg fs wd_opt = Inr (wd, fs')
       \<and> build_cmd h tool_name args_opt = Inr command \<longrightarrow>
      map proc_timeout (fst (snd (run_tool h cfg fs tool_name args_opt None wd_opt)))
        = [default_timeout cfg])"
proof (intro conjI impI ballI)
  assume "validate_tool_access h cfg tool_name \<and> max_timeout cfg < t"
  then show "run_tool h cfg fs tool_name args_opt (Some t) wd_opt
        = (fs, [], Inl (ValueError (TimeoutExceedsMaximum t (max_timeout cfg))))"
    by (simp add: run_tool_timeout_refused effective_timeout_def)
next
  assume "\<not> validate_tool_access h cfg tool_name"
  then show "run_tool h cfg fs tool_name args_opt timeout_opt wd_opt
        = (fs, [], Inl (SecurityError tool_name))"
    by (rule run_tool_denied)
next
  assume "max_timeout cfg < t"
  then have "validate_timeout_field cfg (Some t) = Inl (TimeoutOutOfRange t)"
    by (simp add: validate_timeout_field_def)
  then show "post_run h cfg fs tool_name args_opt (Some t) wd_opt
        = (fs, [], HTTPException 422)"
    by (simp add: post_run_def ToolExecutionRequest_init_def errors_of_def Let_def)
next
  fix l
  assume "l \<in> set (fst (snd (run_tool h cfg fs tool_name args_opt None wd_opt)))"
  from run_tool_launches [OF this]
  have "effective_timeout cfg None = Inr (proc_timeout l)" by blast
  then show "proc_timeout l = default_timeout cfg"
    by (simp add: effective_timeout_def)
next
  assume "validate_tool_access h cfg tool_name
       \<and> prepare_working_dir h cfg fs wd_opt = Inr (wd, fs')
       \<and> build_cmd h tool_name args_opt = Inr command"
  moreover have "effective_timeout cfg None = Inr (default_timeout cfg)"
    by (simp add: effective_timeout_def)
  ultimately show "map proc_timeout (fst (snd (run_tool h cfg fs tool_name args_opt None wd_opt)))
        = [default_timeout cfg]"
    by (simp add: run_tool_launched)
qed

text \<open>
  On the example host with the default configuration (maximum 300, default 60): the
  timeout 999999 for \<open>nmap\<close> and for \<open>rm\<close>, on both routes, and \<open>nmap -V\<close> without a
  timeout.
\<close>

theorem run_tool_timeout_check_witness:
  "validate_tool_access (example_host TimeoutExpired) default_config ''nmap''
   \<and> max_timeout default_config < 999999
   \<and> run_tool (example_host TimeoutExpired) default_config {} ''nmap'' (Some ''-V'')
        (Some 999999) None
        = ({}, [], Inl (ValueError (TimeoutExceedsMaximum 999999 300)))
   \<and> \<not> validate_tool_access (example_host TimeoutExpired) default_config ''rm''
   \<and> run_tool (example_host TimeoutExpired) default_config {} ''rm'' (Some ''-V'')
        (Some 999999) None
        = ({}, [], Inl (SecurityError ''rm''))
   \<and> post_run (example_host TimeoutExpired) default_config {} ''rm'' (Some ''-V'')
        (Some 999999) None
        = ({}, [], HTTPException 422)
   \<and> prepare_working_dir (example_host TimeoutExpired) default_config {} None
       = Inr (''/tmp/kali-mcp'', {''/tmp/kali-mcp''})
   \<and> build_cmd (example_host TimeoutExpired) ''nmap'' (Some ''-V'') = Inr [''nmap'', ''-V'']
   \<and> map proc_timeout (fst (snd (run_tool (example_host TimeoutExpired) default_config {}
         ''nmap'' (Some ''-V'') None None))) = [60]
   \<and> list_all (\<lambda>l. proc_timeout l = 60)
        (fst (snd (run_tool (example_host TimeoutExpired) default_config {}
           ''nmap'' (Some ''-V'') None None)))"
proof -
  let ?h = "example_host TimeoutExpired"
  have a: "validate_tool_access ?h default_config ''nmap''"
    by (rule example_access)
  have b: "\<not> validate_tool_access ?h default_config ''rm''"
    by (rule example_no_access)
  have c: "build_cmd ?h ''nmap'' (Some ''-V'') = Inr [''nmap'', ''-V'']"
    by (simp add: build_cmd_def truthy_def example_host_def split_blanks_def)
  have w: "prepare_working_dir ?h default_config {} None
             = Inr (''/tmp/kali-mcp'', {''/tmp/kali-mcp''})"
    by (simp add: prepare_working_dir_def truthy_def default_config_def makedirs_def
        example_host_def startswith_def)
  have m: "max_timeout default_config = 300" "default_timeout default_config = 60"
    by (simp_all add: default_config_def)
  note nmap = run_tool_timeout_check [of ?h default_config "''nmap''" 999999 "{}"
      "Some ''-V''" None "Some 999999" "''/tmp/kali-mcp''" "{''/tmp/kali-mcp''}"
      "[''nmap'', ''-V'']"]
  note rm = run_tool_timeout_check [of ?h default_config "''rm''" 999999 "{}"
      "Some ''-V''" None "Some 999999" "''/tmp/kali-mcp''" "{''/tmp/kali-mcp''}"
      "[''nmap'', ''-V'']"]
  from nmap a w c m
  have launches: "map proc_timeout (fst (snd (run_tool ?h default_config {}
         ''nmap'' (Some ''-V'') None None))) = [60]"
    by simp
  from nmap m
  have each: "list_all (\<lambda>l. proc_timeout l = 60)
        (fst (snd (run_tool ?h default_config {} ''nmap'' (Some ''-V'') None None)))"
    by (simp add: list_all_iff)
  from nmap rm a b m have refused:
    "run_tool ?h default_config {} ''nmap'' (Some ''-V'') (Some 999999) None
        = ({}, [], Inl (ValueError (TimeoutExceedsMaximum 999999 300)))"
    "run_tool ?h default_config {} ''rm'' (Some ''-V'') (Some 999999) None
        = ({}, [], Inl (SecurityError ''rm''))"
    "post_run ?h default_config {} ''rm'' (Some ''-V'') (Some 999999) None
        = ({}, [], HTTPException 422)"
    by simp_all
  from a b c w m launches each refused show ?thesis by simp
qed

text \<open>
  The timeout 999999 is above the maximum, and \<open>run_tool\<close> refuses the request with a
  \<open>SecurityError\<close>, not a \<open>ValueError\<close>: \<open>rm\<close> is not an allowed tool.
\<close>

theorem run_tool_timeout_counterexample:
  "max_timeout default_config < 999999
   \<and> run_tool (example_host TimeoutExpired) default_config {} ''rm'' (Some ''-V'')
        (Some 999999) None
        = ({}, [], Inl (SecurityError ''rm''))"
  using example_no_access [of TimeoutExpired]
  by (simp add: run_tool_def default_config_def)

section \<open>Tool names\<close>

text \<open>
  The names that \<open>validate_tool\<close> accepts: the non-empty strings of letters, digits,
  hyphens and underscores, and each of those followed by one newline.
\<close>

lemma re_match_tool_name_iff:
  "re_match_tool_name v \<longleftrightarrow>
     (v \<noteq> [] \<and> list_all tool_name_char v)
     \<or> (\<exists>p. p \<noteq> [] \<and> list_all tool_name_char p \<and> v = p @ [CHR 0x0A])"
  (is "_ \<longleftrightarrow> ?P v")
proof (induction v)
  case Nil
  then show ?case by simp
next
  case (Cons c cs)
  have step: "?P (c # cs) \<longleftrightarrow> tool_name_char c \<and> (cs = [] \<or> cs = [CHR 0x0A] \<or> ?P cs)"
  proof
    assume "?P (c # cs)"
    then show "tool_name_char c \<and> (cs = [] \<or> cs = [CHR 0x0A] \<or> ?P cs)"
    proof
      assume "c # cs \<noteq> [] \<and> list_all tool_name_char (c # cs)"
      then show ?thesis by (cases cs) simp_all
    next
      assume "\<exists>p. p \<noteq> [] \<and> list_all tool_name_char p \<and> c # cs = p @ [CHR 0x0A]"
      then obtain p where p: "p \<noteq> []" "list_all tool_name_char p" "c # cs = p @ [CHR 0x0A]"
        by blast
      from p(1) obtain d ds where pd: "p = d # ds" by (cases p) auto
      with p(3) have eq: "d = c" "cs = ds @ [CHR 0x0A]" by simp_all
      from p(2) pd eq have "tool_name_char c" "list_all tool_name_char ds" by simp_all
      with eq show ?thesis by (cases ds) auto
    qed
  next
    assume r: "tool_name_char c \<and> (cs = [] \<or> cs = [CHR 0x0A] \<or> ?P cs)"
    then have c: "tool_name_char c" by simp
    from r consider "cs = []" | "cs = [CHR 0x0A]"
      | "cs \<noteq> [] \<and> list_all tool_name_char cs"
      | p where "p \<noteq> []" "list_all tool_name_char p" "cs = p @ [CHR 0x0A]"
      by blast
    then show "?P (c # cs)"
    proof cases
      case 1
      with c show ?thesis by simp
    next
      case 2
      with c have "[c] \<noteq> [] \<and> list_all tool_name_char [c] \<and> c # cs = [c] @ [CHR 0x0A]"
        by simp
      then show ?thesis by blast
    next
      case 3
      with c show ?thesis by simp
    next
      case 4
      with c have "c # p \<noteq> [] \<and> list_all tool_name_char (c # p)
          \<and> c # cs = (c # p) @ [CHR 0x0A]"
        by simp
      then show ?thesis by blast
    qed
  qed
  have "re_match_tool_name (c # cs)
      \<longleftrightarrow> tool_name_char c \<and> (cs = [] \<or> cs = [CHR 0x0A] \<or> re_match_tool_name cs)"
    by (simp add: dollar_matches_def)
  with Cons.IH step show ?case by simp
qed

text \<open>
  C8. The name \<open>nmap\<close> followed by a newline has a character outside the class, and
  \<open>validate_tool\<close> accepts it: \<open>$\<close> also matches just before a final newline.
\<close>

theorem validate_tool_accepts_trailing_newline:
  "validate_tool (''nmap'' @ [CHR 0x0A]) = Inr (''nmap'' @ [CHR 0x0A])
   \<and> \<not> tool_name_char (CHR 0x0A)"
  by (simp add: validate_tool_def dollar_matches_def tool_name_char_def)

section \<open>Listing the tools\<close>

lemma access_which:
  "validate_tool_access h cfg t \<Longrightarrow> \<exists>p. which h t = Some p \<and> p \<noteq> []"
  by (auto simp: validate_tool_access_def split: if_splits option.splits)

lemma get_tool_info_denied:
  "\<not> validate_tool_access h cfg t \<Longrightarrow> get_tool_info h cfg t = Inr None"
  by (simp add: get_tool_info_def)

lemma get_tool_info_granted:
  assumes "validate_tool_access h cfg t"
  shows "get_tool_info h cfg t =
           (case probe_version h t of
              Inl e \<Rightarrow> Inl e
            | Inr v \<Rightarrow> Inr (Some \<lparr>name = t, path = the (which h t), version = v,
                                 description = None, available = True\<rparr>))"
  using assms access_which [OF assms]
  by (auto simp: get_tool_info_def truthy_def split: sum.splits)

lemma probe_version_raises:
  "(\<exists>e. probe_version h t = Inl e) \<longleftrightarrow>
     (\<exists>e. subprocess_run h (version_probe t) = Raised e
          \<and> e \<noteq> CalledProcessError \<and> e \<noteq> FileNotFoundError)"
  by (auto simp: probe_version_def split: proc_outcome.splits)

lemma get_tool_info_returns:
  "(\<exists>r. get_tool_info h cfg t = Inr r) \<longleftrightarrow> probe_ok h cfg t"
proof (cases "validate_tool_access h cfg t")
  case False
  then show ?thesis by (simp add: get_tool_info_denied probe_ok_def)
next
  case True
  have "(\<exists>r. get_tool_info h cfg t = Inr r) \<longleftrightarrow> \<not> (\<exists>e. probe_version h t = Inl e)"
    by (cases "probe_version h t") (simp_all add: get_tool_info_granted [OF True])
  with True show ?thesis
    by (auto simp: probe_version_raises probe_ok_def)
qed

lemma list_tools_from_returns:
  "(\<exists>ts. list_tools_from h cfg names = Inr ts) \<longleftrightarrow> (\<forall>t \<in> set names. probe_ok h cfg t)"
proof (induction names)
  case Nil
  then show ?case by simp
next
  case (Cons t names)
  have "(\<exists>ts. list_tools_from h cfg (t # names) = Inr ts) \<longleftrightarrow>
          (\<exists>r. get_tool_info h cfg t = Inr r) \<and> (\<exists>ts. list_tools_from h cfg names = Inr ts)"
    by (auto split: sum.splits)
  then show ?case
    using Cons.IH by (simp add: get_tool_info_returns)
qed

lemma get_tool_info_entry:
  assumes "get_tool_info h cfg t = Inr r"
  shows "entry_for h cfg t (case r of Some info \<Rightarrow> info | None \<Rightarrow> unavailable t)"
proof (cases "validate_tool_access h cfg t")
  case False
  with assms show ?thesis
    by (auto simp: get_tool_info_denied entry_for_def unavailable_def)
next
  case True
  from access_which [OF True] obtain p where "which h t = Some p" by blast
  with assms True show ?thesis
    by (auto simp: get_tool_info_granted [OF True] entry_for_def split: sum.splits)
qed

lemma list_tools_from_entries:
  "list_tools_from h cfg names = Inr ts \<Longrightarrow> list_all2 (entry_for h cfg) names ts"
proof (induction names arbitrary: ts)
  case Nil
  then show ?case by simp
next
  case (Cons t names)
  from Cons.prems obtain r ts' where
    r: "get_tool_info h cfg t = Inr r" and ts': "list_tools_from h cfg names = Inr ts'"
    and ts: "ts = (case r of Some info \<Rightarrow> info | None \<Rightarrow> unavailable t) # ts'"
    by (auto split: sum.splits)
  from Cons.IH [OF ts'] get_tool_info_entry [OF r] ts show ?case by simp
qed

text \<open>
  What listing does. It returns a list exactly when no tool that passes the access
  check has a version probe that raises an exception other than a timeout, a
  \<open>CalledProcessError\<close> or a \<open>FileNotFoundError\<close>. The list it returns has one entry
  for each name of the allow-list, in the order of the allow-list: a name that passes
  the access check has an available entry with the path that \<open>which\<close> gives, any other
  name an unavailable entry with the empty path; and the total of the HTTP listing is
  the length of the allow-list.
\<close>

lemma list_tools_entries:
  "((\<exists>ts'. list_tools h cfg = Inr ts') \<longleftrightarrow>
      (\<forall>t \<in> set (allowed_tools cfg).
         validate_tool_access h cfg t \<longrightarrow>
           (\<forall>e. subprocess_run h (version_probe t) = Raised e \<longrightarrow>
                  e = CalledProcessError \<or> e = FileNotFoundError)))
   \<and> (list_tools h cfg = Inr ts \<longrightarrow>
        length ts = length (allowed_tools cfg)
        \<and> (\<forall>i < length ts.
              name (ts ! i) = allowed_tools cfg ! i
              \<and> (if validate_tool_access h cfg (allowed_tools cfg ! i)
                 then available (ts ! i) \<and> which h (allowed_tools cfg ! i) = Some (path (ts ! i))
                 else \<not> available (ts ! i) \<and> path (ts ! i) = [])))
   \<and> (list_tools_http h cfg = Inr r \<longrightarrow> total r = int (length (allowed_tools cfg)))"
proof (intro conjI impI)
  show "(\<exists>ts'. list_tools h cfg = Inr ts') \<longleftrightarrow>
      (\<forall>t \<in> set (allowed_tools cfg).
         validate_tool_access h cfg t \<longrightarrow>
           (\<forall>e. subprocess_run h (version_probe t) = Raised e \<longrightarrow>
                  e = CalledProcessError \<or> e = FileNotFoundError))"
    unfolding list_tools_def list_tools_from_returns probe_ok_def ..
next
  assume "list_tools h cfg = Inr ts"
  then have "list_all2 (entry_for h cfg) (allowed_tools cfg) ts"
    unfolding list_tools_def by (rule list_tools_from_entries)
  then show "length ts = length (allowed_tools cfg)"
    and "\<forall>i < length ts.
              name (ts ! i) = allowed_tools cfg ! i
              \<and> (if validate_tool_access h cfg (allowed_tools cfg ! i)
                 then available (ts ! i) \<and> which h (allowed_tools cfg ! i) = Some (path (ts ! i))
                 else \<not> available (ts ! i) \<and> path (ts ! i) = [])"
    by (auto simp: list_all2_conv_all_nth entry_for_def)
next
  assume "list_tools_http h cfg = Inr r"
  then obtain ts' where ts': "list_tools h cfg = Inr ts'"
    and r: "r = \<lparr>tools = ts', total = int (length ts')\<rparr>"
    by (auto simp: list_tools_http_def split: sum.splits)
  from ts' have "list_all2 (entry_for h cfg) (allowed_tools cfg) ts'"
    unfolding list_tools_def by (rule list_tools_from_entries)
  with r show "total r = int (length (allowed_tools cfg))"
    by (simp add: list_all2_lengthD)
qed

text \<open>
  An allow-list of \<open>nmap\<close> and \<open>dig\<close> on the example host, where only \<open>nmap\<close> is
  installed and the probe raises \<open>FileNotFoundError\<close>, which is tolerated.
\<close>

lemma list_tools_example:
  "list_tools (example_host (Raised FileNotFoundError))
       (default_config\<lparr>allowed_tools := [''nmap'', ''dig'']\<rparr>)
     = Inr [\<lparr>name = ''nmap'', path = ''/usr/bin/nmap'', version = None, description = None,
             available = True\<rparr>,
            \<lparr>name = ''dig'', path = [], version = None, description = None,
             available = False\<rparr>]"
  by (simp add: list_tools_def get_tool_info_def validate_tool_access_def example_host_def
      truthy_def probe_version_def unavailable_def)

text \<open>
  C10. On a host where \<open>nmap\<close> is installed and its version probe raises a
  \<open>PermissionError\<close>, listing the default allow-list returns no list at all: the
  exception, which the \<open>try\<close> block around the probe does not catch, leaves
  \<open>get_tool_info\<close> and \<open>list_tools\<close>, on the HTTP route as well.
\<close>

theorem list_tools_probe_error_propagates:
  "validate_tool_access (example_host (Raised PermissionError)) default_config ''nmap''
   \<and> get_tool_info (example_host (Raised PermissionError)) default_config ''nmap''
       = Inl (Propagated PermissionError)
   \<and> list_tools (example_host (Raised PermissionError)) default_config
       = Inl (Propagated PermissionError)
   \<and> list_tools_http (example_host (Raised PermissionError)) default_config
       = Inl (Propagated PermissionError)"
  by (simp add: list_tools_http_def list_tools_def default_config_def
      default_allowed_tools_def get_tool_info_def validate_tool_access_def example_host_def
      truthy_def probe_version_def)

end
